theory Spec2Isabelle
  imports Main
begin

section \<open>JSON values and the accessors the clients use\<close>

text \<open>
  The clients handle JSON through the \<^verbatim>\<open>nlohmann::json\<close> value type. A value is
  one of null, boolean, number, string, array, object. An object is a key-sorted map
  without duplicate keys; it is modelled by an association list read with \<open>map_of\<close>.
  The numeric payload of a number is never inspected by the clients.
\<close>

datatype json =
    JNull
  | JBool bool
  | JNum int
  | JStr string
  | JArr "json list"
  | JObj "(string \<times> json) list"

text \<open>
  Exceptions derived from \<^verbatim>\<open>nlohmann::json::exception\<close>: \<open>parse_error\<close> carries the
  text reported by the parser, \<open>type_error\<close> the library's error id and message.
\<close>

datatype json_exception =
    parse_error string
  | type_error nat string

fun is_null :: "json \<Rightarrow> bool" where
  "is_null JNull = True"
| "is_null _ = False"

fun is_array :: "json \<Rightarrow> bool" where
  "is_array (JArr _) = True"
| "is_array _ = False"

fun is_object :: "json \<Rightarrow> bool" where
  "is_object (JObj _) = True"
| "is_object _ = False"

fun type_name :: "json \<Rightarrow> string" where
  "type_name JNull = ''null''"
| "type_name (JBool _) = ''boolean''"
| "type_name (JNum _) = ''number''"
| "type_name (JStr _) = ''string''"
| "type_name (JArr _) = ''array''"
| "type_name (JObj _) = ''object''"

text \<open>
  \<open>obj_find k j\<close> is the member of \<open>j\<close> under key \<open>k\<close>: \<^verbatim>\<open>j.contains(k)\<close> holds exactly
  when it is \<open>Some v\<close>, and then \<^verbatim>\<open>j[k]\<close> on a const value is \<open>v\<close>. On a value that is
  not an object \<^verbatim>\<open>contains\<close> is false.
\<close>

fun obj_find :: "string \<Rightarrow> json \<Rightarrow> json option" where
  "obj_find k (JObj kvs) = map_of kvs k"
| "obj_find k _ = None"

definition contains :: "string \<Rightarrow> json \<Rightarrow> bool" where
  "contains k j = (obj_find k j \<noteq> None)"

text \<open>The elements a range-based for loop visits on an array.\<close>

fun elements :: "json \<Rightarrow> json list" where
  "elements (JArr es) = es"
| "elements _ = []"

text \<open>\<^verbatim>\<open>get<std::string>()\<close> and \<^verbatim>\<open>get<bool>()\<close>: a value of another type raises
  type error 302.\<close>

fun get_string :: "json \<Rightarrow> json_exception + string" where
  "get_string (JStr s) = Inr s"
| "get_string j = Inl (type_error 302 (''type must be string, but is '' @ type_name j))"

fun get_bool :: "json \<Rightarrow> json_exception + bool" where
  "get_bool (JBool b) = Inr b"
| "get_bool j = Inl (type_error 302 (''type must be boolean, but is '' @ type_name j))"

text \<open>
  \<^verbatim>\<open>j[k]\<close> on a non-const value: null becomes an object, a missing key is
  inserted with value null, any other non-object raises type error 305.
\<close>

fun index_mut :: "string \<Rightarrow> json \<Rightarrow> json_exception + json" where
  "index_mut k JNull = Inr JNull"
| "index_mut k (JObj kvs) = (case map_of kvs k of Some v \<Rightarrow> Inr v | None \<Rightarrow> Inr JNull)"
| "index_mut k j =
     Inl (type_error 305 (''cannot use operator[] with a string argument with '' @ type_name j))"

text \<open>\<^verbatim>\<open>std::to_string\<close> on an \<^verbatim>\<open>int\<close>: decimal digits, a minus sign when negative.\<close>

fun nat_to_string :: "nat \<Rightarrow> string" where
  "nat_to_string n =
     (if n < 10 then [''0123456789'' ! n]
      else nat_to_string (n div 10) @ [''0123456789'' ! (n mod 10)])"

declare nat_to_string.simps [simp del]

definition to_string :: "int \<Rightarrow> string" where
  "to_string i = (if i < 0 then CHR ''-'' # nat_to_string (nat (- i)) else nat_to_string (nat i))"

text \<open>\<^verbatim>\<open>e.what()\<close>.\<close>

fun what :: "json_exception \<Rightarrow> string" where
  "what (parse_error msg) = msg"
| "what (type_error n msg) = ''[json.exception.type_error.'' @ nat_to_string n @ ''] '' @ msg"

text \<open>Sequencing of steps that may raise.\<close>

fun bind_exn :: "'e + 'a \<Rightarrow> ('a \<Rightarrow> 'e + 'b) \<Rightarrow> 'e + 'b" where
  "bind_exn (Inl e) f = Inl e"
| "bind_exn (Inr x) f = f x"

section \<open>KeycloakClient::UserInfo\<close>

text \<open>The members of \<^verbatim>\<open>UserInfo\<close>, prefixed with \<open>ui_\<close> to keep them apart from the
  members of the directory's \<^verbatim>\<open>User\<close>.\<close>

record UserInfo =
  ui_username :: string
  ui_email :: string
  ui_firstName :: string
  ui_lastName :: string
  ui_password :: string
  ui_enabled :: bool
  ui_emailVerified :: bool

text \<open>
  \<^verbatim>\<open>UserInfo::toJson\<close>: six members are always written; the credentials array is
  written only when the password is not empty, and its single entry carries the
  literal \<^verbatim>\<open>"logipad"\<close>.
\<close>

definition toJson :: "UserInfo \<Rightarrow> json" where
  "toJson u = JObj (
     [(''username'', JStr (ui_username u)),
      (''email'', JStr (ui_email u)),
      (''firstName'', JStr (ui_firstName u)),
      (''lastName'', JStr (ui_lastName u)),
      (''enabled'', JBool (ui_enabled u)),
      (''emailVerified'', JBool (ui_emailVerified u))]
     @ (if ui_password u \<noteq> []
        then [(''credentials'',
               JArr [JObj [(''type'', JStr ''password''),
                           (''value'', JStr ''logipad''),
                           (''temporary'', JBool True)]])]
        else []))"

section \<open>The transport\<close>

text \<open>
  A request names the session it is sent on (host and port of the \<^verbatim>\<open>httplib::SSLClient\<close>),
  the method, the path, the headers and what is sent along: form parameters, or a
  JSON value (whose \<^verbatim>\<open>dump()\<close> is the body text) with its content type. The answer of
  the transport is \<open>None\<close> when no response was received (\<^verbatim>\<open>!res\<close>).
  Every operation returns, next to its result, the requests it has sent, in order.
\<close>

datatype payload =
    NoPayload
  | Form "(string \<times> string) list"
  | Body json string

record request =
  req_host :: string
  req_port :: int
  req_method :: string
  req_path :: string
  req_headers :: "(string \<times> string) list"
  req_payload :: payload

record response =
  status :: int
  body :: string

type_synonym transport = "request \<Rightarrow> response option"

text \<open>\<^verbatim>\<open>nlohmann::json::parse\<close> is a parameter of the model: it gives the value of a
  body text, or the exception it raises.\<close>

type_synonym parser = "string \<Rightarrow> json_exception + json"

section \<open>KeycloakClient\<close>

record KeycloakClient =
  m_host :: string
  m_port :: int
  m_realm :: string
  m_clientId :: string
  m_username :: string
  m_password :: string
  m_accessToken :: string
  m_lastError :: string

definition KeycloakClient_new ::
  "string \<Rightarrow> int \<Rightarrow> string \<Rightarrow> string \<Rightarrow> string \<Rightarrow> string \<Rightarrow> KeycloakClient" where
  "KeycloakClient_new host port realm clientId user pass =
     \<lparr>m_host = host, m_port = port, m_realm = realm, m_clientId = clientId,
      m_username = user, m_password = pass, m_accessToken = [], m_lastError = []\<rparr>"

definition getAccessToken :: "KeycloakClient \<Rightarrow> string" where
  "getAccessToken c = m_accessToken c"

definition isAuthenticated :: "KeycloakClient \<Rightarrow> bool" where
  "isAuthenticated c = (m_accessToken c \<noteq> [])"

definition getLastError :: "KeycloakClient \<Rightarrow> string" where
  "getLastError c = m_lastError c"

definition setCredentials :: "string \<Rightarrow> string \<Rightarrow> KeycloakClient \<Rightarrow> KeycloakClient" where
  "setCredentials user pass c =
     c\<lparr>m_username := user, m_password := pass, m_accessToken := []\<rparr>"

text \<open>The password-grant request both clients build.\<close>

definition token_request ::
  "string \<Rightarrow> int \<Rightarrow> string \<Rightarrow> string \<Rightarrow> string \<Rightarrow> string \<Rightarrow> request" where
  "token_request host port realm clientId user pass =
     \<lparr>req_host = host, req_port = port, req_method = ''POST'',
      req_path = ''/realms/'' @ realm @ ''/protocol/openid-connect/token'',
      req_headers = [],
      req_payload = Form [(''client_id'', clientId), (''grant_type'', ''password''),
                          (''username'', user), (''password'', pass)]\<rparr>"

text \<open>The \<^verbatim>\<open>try\<close> block of \<^verbatim>\<open>KeycloakClient::authenticate\<close> on the body of a 200 response.\<close>

definition authenticate_try ::
  "parser \<Rightarrow> KeycloakClient \<Rightarrow> string \<Rightarrow> json_exception + bool \<times> KeycloakClient" where
  "authenticate_try parse c b =
     bind_exn (parse b) (\<lambda>j.
       case obj_find ''access_token'' j of
         Some v \<Rightarrow> bind_exn (get_string v) (\<lambda>tok. Inr (True, c\<lparr>m_accessToken := tok\<rparr>))
       | None \<Rightarrow> Inr (False, c\<lparr>m_lastError := ''Access token not found in response''\<rparr>))"

definition KeycloakClient_authenticate ::
  "parser \<Rightarrow> transport \<Rightarrow> KeycloakClient \<Rightarrow> bool \<times> KeycloakClient \<times> request list" where
  "KeycloakClient_authenticate parse net c =
     (let c1 = c\<lparr>m_lastError := [], m_accessToken := []\<rparr> in
      if m_username c1 = [] \<or> m_password c1 = []
      then (False, c1\<lparr>m_lastError := ''Username or password not set''\<rparr>, [])
      else
        let req = token_request (m_host c1) (m_port c1) (m_realm c1) (m_clientId c1)
                    (m_username c1) (m_password c1)
        in case net req of
             Some res \<Rightarrow>
               if status res = 200
               then (case authenticate_try parse c1 (body res) of
                       Inr (ok, c2) \<Rightarrow> (ok, c2, [req])
                     | Inl e \<Rightarrow>
                         (False,
                          c1\<lparr>m_lastError := ''Failed to parse JSON response: '' @ what e\<rparr>,
                          [req]))
               else (False,
                     c1\<lparr>m_lastError :=
                          ''Authentication failed with status: '' @ to_string (status res)
                          @ (if body res \<noteq> [] then '' - '' @ body res else [])\<rparr>,
                     [req])
           | None \<Rightarrow> (False, c1\<lparr>m_lastError := ''Authentication request failed''\<rparr>, [req]))"

definition ensureAuthenticated ::
  "parser \<Rightarrow> transport \<Rightarrow> KeycloakClient \<Rightarrow> bool \<times> KeycloakClient \<times> request list" where
  "ensureAuthenticated parse net c =
     (if m_accessToken c = [] then KeycloakClient_authenticate parse net c else (True, c, []))"

definition getAuthHeaders :: "KeycloakClient \<Rightarrow> (string \<times> string) list" where
  "getAuthHeaders c =
     (if m_accessToken c \<noteq> [] then [(''Authorization'', ''Bearer '' @ m_accessToken c)] else [])
     @ [(''Content-Type'', ''application/json''), (''Accept'', ''application/json'')]"

text \<open>The detail \<^verbatim>\<open>createUser\<close> appends for a non-empty error body: the
  \<^verbatim>\<open>errorMessage\<close> member when the body parses and has one, the raw body when it
  parses without one or when anything is raised (\<^verbatim>\<open>catch (...)\<close>).\<close>

definition error_detail :: "parser \<Rightarrow> string \<Rightarrow> string" where
  "error_detail parse b =
     (case bind_exn (parse b) (\<lambda>j.
             case obj_find ''errorMessage'' j of Some v \<Rightarrow> get_string v | None \<Rightarrow> Inr b) of
        Inr s \<Rightarrow> s
      | Inl e \<Rightarrow> b)"

definition create_request :: "KeycloakClient \<Rightarrow> UserInfo \<Rightarrow> string \<Rightarrow> request" where
  "create_request c userInfo realm =
     \<lparr>req_host = m_host c, req_port = m_port c, req_method = ''POST'',
      req_path = ''/admin/realms/'' @ realm @ ''/users'',
      req_headers = getAuthHeaders c,
      req_payload = Body (toJson userInfo) ''application/json''\<rparr>"

definition createUser ::
  "parser \<Rightarrow> transport \<Rightarrow> KeycloakClient \<Rightarrow> UserInfo \<Rightarrow> string
     \<Rightarrow> bool \<times> KeycloakClient \<times> request list" where
  "createUser parse net c userInfo realm =
     (case ensureAuthenticated parse net (c\<lparr>m_lastError := []\<rparr>) of
        (authed, c1, sent) \<Rightarrow>
          if \<not> authed
          then (False, c1\<lparr>m_lastError := ''Not authenticated: '' @ m_lastError c1\<rparr>, sent)
          else if ui_username userInfo = []
          then (False, c1\<lparr>m_lastError := ''Username is required''\<rparr>, sent)
          else if ui_email userInfo = []
          then (False, c1\<lparr>m_lastError := ''Email is required''\<rparr>, sent)
          else
            let req = create_request c1 userInfo realm
            in (case net req of
                 Some res \<Rightarrow>
                   if status res = 201 then (True, c1, sent @ [req])
                   else if status res = 409
                   then (False,
                         c1\<lparr>m_lastError :=
                              ''User with username '' @ [CHR 39] @ ui_username userInfo
                              @ [CHR 39] @ '' already exists''\<rparr>,
                         sent @ [req])
                   else (False,
                         c1\<lparr>m_lastError :=
                              ''Failed to create user. Status: '' @ to_string (status res)
                              @ (if body res \<noteq> []
                                 then '' - '' @ error_detail parse (body res) else [])\<rparr>,
                         sent @ [req])
               | None \<Rightarrow>
                   (False, c1\<lparr>m_lastError := ''Request failed to create user''\<rparr>, sent @ [req])))"

section \<open>LogipadClient\<close>

text \<open>
  The members of \<^verbatim>\<open>LogipadClient\<close>, prefixed with \<open>lp_\<close> where \<^verbatim>\<open>KeycloakClient\<close>
  has a member of the same name. \<^verbatim>\<open>m_keycloakClient\<close> is a \<^verbatim>\<open>unique_ptr\<close>: \<open>None\<close> is
  the null pointer.
\<close>

record LogipadClient =
  lp_m_host :: string
  lp_m_port :: int
  lp_m_realm :: string
  lp_m_clientId :: string
  lp_m_username :: string
  lp_m_password :: string
  lp_m_accessToken :: string
  m_keycloakClient :: "KeycloakClient option"

text \<open>The constructor initialises every member but \<^verbatim>\<open>m_accessToken\<close> and
  \<^verbatim>\<open>m_keycloakClient\<close>, which are default-constructed: empty, and null.\<close>

definition LogipadClient_new ::
  "string \<Rightarrow> int \<Rightarrow> string \<Rightarrow> string \<Rightarrow> string \<Rightarrow> string \<Rightarrow> LogipadClient" where
  "LogipadClient_new host port realm clientId user pass =
     \<lparr>lp_m_host = host, lp_m_port = port, lp_m_realm = realm, lp_m_clientId = clientId,
      lp_m_username = user, lp_m_password = pass, lp_m_accessToken = [],
      m_keycloakClient = None\<rparr>"

definition LogipadClient_getAccessToken :: "LogipadClient \<Rightarrow> string" where
  "LogipadClient_getAccessToken c = lp_m_accessToken c"

definition LogipadClient_isAuthenticated :: "LogipadClient \<Rightarrow> bool" where
  "LogipadClient_isAuthenticated c = (lp_m_accessToken c \<noteq> [])"

text \<open>
  \<^verbatim>\<open>LogipadClient::authenticate\<close> (and, word for word, \<^verbatim>\<open>LPLogipadClient::authenticate\<close>).
  The body of a 200 response is parsed, indexed and converted to a string outside of
  any \<^verbatim>\<open>try\<close> block, so the result is either the returned boolean or the exception
  that leaves the function.
\<close>

definition LogipadClient_authenticate ::
  "parser \<Rightarrow> transport \<Rightarrow> LogipadClient
     \<Rightarrow> (json_exception + bool) \<times> LogipadClient \<times> request list" where
  "LogipadClient_authenticate parse net c =
     (let c1 = c\<lparr>lp_m_accessToken := []\<rparr> in
      if lp_m_username c1 = [] \<or> lp_m_password c1 = []
      then (Inr False, c1, [])
      else
        let req = token_request (lp_m_host c1) (lp_m_port c1) (lp_m_realm c1) (lp_m_clientId c1)
                    (lp_m_username c1) (lp_m_password c1)
        in case net req of
             Some res \<Rightarrow>
               if status res = 200
               then (case bind_exn (parse (body res)) (\<lambda>j.
                            bind_exn (index_mut ''access_token'' j) get_string) of
                       Inr tok \<Rightarrow> (Inr True, c1\<lparr>lp_m_accessToken := tok\<rparr>, [req])
                     | Inl e \<Rightarrow> (Inl e, c1, [req]))
               else (Inr False, c1, [req])
           | None \<Rightarrow> (Inr False, c1, [req]))"

subsection \<open>Directory users\<close>

record User =
  guid :: string
  created_at :: "string option"
  created_by :: "string option"
  modified_at :: "string option"
  modified_by :: "string option"
  last_login_at :: "string option"
  last_activity_at :: "string option"
  last_document_service_activity :: "string option"
  last_eform_service_activity :: "string option"
  last_briefing_service_activity :: "string option"
  name :: "string option"
  type :: "string option"
  full_name :: "string option"
  email :: "string option"
  three_lc :: "string option"
  department :: "string option"
  description :: "string option"
  is_active :: bool
  is_reportable :: bool

text \<open>
  The loop body of \<^verbatim>\<open>getAllUsers\<close> starts from a default-constructed \<^verbatim>\<open>User\<close> and
  assigns each member at most once, from the entry alone; the two copies of the body
  (array envelope and \<^verbatim>\<open>users\<close> envelope) are the same statements. Each member's
  value is computed here in the order of the source and the record is built at the
  end; an exception raised on the way leaves the loop before the \<^verbatim>\<open>push_back\<close>.
\<close>

definition guid_member :: "json \<Rightarrow> json_exception + string" where
  "guid_member e = (case obj_find ''guid'' e of Some v \<Rightarrow> get_string v | None \<Rightarrow> Inr [])"

definition optional_member :: "string \<Rightarrow> json \<Rightarrow> json_exception + string option" where
  "optional_member k e =
     (case obj_find k e of
        Some v \<Rightarrow> if \<not> is_null v then bind_exn (get_string v) (\<lambda>s. Inr (Some s)) else Inr None
      | None \<Rightarrow> Inr None)"

definition bool_member :: "string \<Rightarrow> bool \<Rightarrow> json \<Rightarrow> json_exception + bool" where
  "bool_member k dflt e = (case obj_find k e of Some v \<Rightarrow> get_bool v | None \<Rightarrow> Inr dflt)"

definition parse_user :: "json \<Rightarrow> json_exception + User" where
  "parse_user e =
     bind_exn (guid_member e) (\<lambda>g.
     bind_exn (optional_member ''created_at'' e) (\<lambda>v1.
     bind_exn (optional_member ''created_by'' e) (\<lambda>v2.
     bind_exn (optional_member ''modified_at'' e) (\<lambda>v3.
     bind_exn (optional_member ''modified_by'' e) (\<lambda>v4.
     bind_exn (optional_member ''last_login_at'' e) (\<lambda>v5.
     bind_exn (optional_member ''last_activity_at'' e) (\<lambda>v6.
     bind_exn (optional_member ''last_document_service_activity'' e) (\<lambda>v7.
     bind_exn (optional_member ''last_eform_service_activity'' e) (\<lambda>v8.
     bind_exn (optional_member ''last_briefing_service_activity'' e) (\<lambda>v9.
     bind_exn (optional_member ''name'' e) (\<lambda>v10.
     bind_exn (optional_member ''type'' e) (\<lambda>v11.
     bind_exn (optional_member ''full_name'' e) (\<lambda>v12.
     bind_exn (optional_member ''email'' e) (\<lambda>v13.
     bind_exn (optional_member ''three_lc'' e) (\<lambda>v14.
     bind_exn (optional_member ''department'' e) (\<lambda>v15.
     bind_exn (optional_member ''description'' e) (\<lambda>v16.
     bind_exn (bool_member ''is_active'' True e) (\<lambda>a.
     bind_exn (bool_member ''is_reportable'' False e) (\<lambda>r.
       Inr \<lparr>guid = g,
            created_at = v1,
            created_by = v2,
            modified_at = v3,
            modified_by = v4,
            last_login_at = v5,
            last_activity_at = v6,
            last_document_service_activity = v7,
            last_eform_service_activity = v8,
            last_briefing_service_activity = v9,
            name = v10,
            type = v11,
            full_name = v12,
            email = v13,
            three_lc = v14,
            department = v15,
            description = v16,
            is_active = a, is_reportable = r\<rparr>)))))))))))))))))))"

text \<open>The range-based for loop: the users pushed so far stay in the collection when
  an entry raises.\<close>

fun parse_users :: "json list \<Rightarrow> User list \<Rightarrow> json_exception option \<times> User list" where
  "parse_users [] acc = (None, acc)"
| "parse_users (e # es) acc =
     (case parse_user e of
        Inl x \<Rightarrow> (Some x, acc)
      | Inr u \<Rightarrow> parse_users es (acc @ [u]))"

record Users =
  users :: "User list"

definition users_request :: "LogipadClient \<Rightarrow> string \<Rightarrow> int \<Rightarrow> request" where
  "users_request c apiHost apiPort =
     \<lparr>req_host = apiHost, req_port = apiPort, req_method = ''GET'', req_path = ''/users'',
      req_headers = [(''Authorization'', ''Bearer '' @ lp_m_accessToken c),
                     (''Accept'', ''application/json'')],
      req_payload = NoPayload\<rparr>"

text \<open>The \<^verbatim>\<open>try\<close> block of \<^verbatim>\<open>getAllUsers\<close> on the body of a 200 response: the
  exception raised, if any, and the collection as it stands then.\<close>

definition getAllUsers_try :: "parser \<Rightarrow> string \<Rightarrow> Users \<Rightarrow> json_exception option \<times> Users" where
  "getAllUsers_try parse b us =
     (case parse b of
        Inl x \<Rightarrow> (Some x, us)
      | Inr j \<Rightarrow>
          if is_array j
          then (case parse_users (elements j) (users us) of
                  (x, l) \<Rightarrow> (x, us\<lparr>users := l\<rparr>))
          else (case obj_find ''users'' j of
                  Some a \<Rightarrow>
                    if is_object j \<and> is_array a
                    then (case parse_users (elements a) (users us) of
                            (x, l) \<Rightarrow> (x, us\<lparr>users := l\<rparr>))
                    else (None, us)
                | None \<Rightarrow> (None, us)))"

text \<open>
  \<^verbatim>\<open>LogipadClient::getAllUsers\<close> (and, word for word, \<^verbatim>\<open>LPLogipadClient::getAllUsers\<close>):
  the returned boolean, the collection passed by reference as it is left, and the
  requests sent.
\<close>

definition getAllUsers ::
  "parser \<Rightarrow> transport \<Rightarrow> LogipadClient \<Rightarrow> Users \<Rightarrow> string \<Rightarrow> int
     \<Rightarrow> bool \<times> Users \<times> request list" where
  "getAllUsers parse net c us0 apiHost apiPort =
     (let us = us0\<lparr>users := []\<rparr> in
      if lp_m_accessToken c = [] then (False, us, [])
      else
        let req = users_request c apiHost apiPort
        in case net req of
             Some res \<Rightarrow>
               if status res = 200
               then (case getAllUsers_try parse (body res) us of
                       (None, us1) \<Rightarrow> (True, us1, [req])
                     | (Some x, us1) \<Rightarrow> (False, us1, [req]))
               else (False, us, [req])
           | None \<Rightarrow> (False, us, [req]))"

section \<open>Vocabulary of the properties\<close>

text \<open>The three components of what an operation gives back.\<close>

definition returned :: "'a \<times> 'b \<times> 'c \<Rightarrow> 'a" where
  "returned r = fst r"

definition state_after :: "'a \<times> 'b \<times> 'c \<Rightarrow> 'b" where
  "state_after r = fst (snd r)"

definition requests_sent :: "'a \<times> 'b \<times> 'c \<Rightarrow> 'c" where
  "requests_sent r = snd (snd r)"

text \<open>The JSON values among the payloads of a list of requests.\<close>

fun sent_bodies :: "request list \<Rightarrow> json list" where
  "sent_bodies [] = []"
| "sent_bodies (r # rs) =
     (case req_payload r of Body j ct \<Rightarrow> j # sent_bodies rs | _ \<Rightarrow> sent_bodies rs)"

text \<open>
  The password is delivered in a one-element \<^verbatim>\<open>credentials\<close> array whose entry has type
  \<^verbatim>\<open>"password"\<close>, is marked temporary, and has the literal \<^verbatim>\<open>"logipad"\<close> as its value.
\<close>

definition password_credentials :: "json \<Rightarrow> bool" where
  "password_credentials j =
     (case obj_find ''credentials'' j of
        Some (JArr [c]) \<Rightarrow>
          obj_find ''type'' c = Some (JStr ''password'')
          \<and> obj_find ''value'' c = Some (JStr ''logipad'')
          \<and> obj_find ''temporary'' c = Some (JBool True)
      | _ \<Rightarrow> False)"

text \<open>A \<^verbatim>\<open>LogipadClient\<close> and a \<^verbatim>\<open>KeycloakClient\<close> configured alike.\<close>

definition same_configuration :: "LogipadClient \<Rightarrow> KeycloakClient \<Rightarrow> bool" where
  "same_configuration l k =
     (lp_m_host l = m_host k \<and> lp_m_port l = m_port k \<and> lp_m_realm l = m_realm k
      \<and> lp_m_clientId l = m_clientId k \<and> lp_m_username l = m_username k
      \<and> lp_m_password l = m_password k)"

text \<open>The optional string members of \<^verbatim>\<open>User\<close>, each with the key \<^verbatim>\<open>getAllUsers\<close> reads
  it from.\<close>

definition optional_members :: "(string \<times> (User \<Rightarrow> string option)) list" where
  "optional_members =
     [(''created_at'', created_at), (''created_by'', created_by),
      (''modified_at'', modified_at), (''modified_by'', modified_by),
      (''last_login_at'', last_login_at), (''last_activity_at'', last_activity_at),
      (''last_document_service_activity'', last_document_service_activity),
      (''last_eform_service_activity'', last_eform_service_activity),
      (''last_briefing_service_activity'', last_briefing_service_activity),
      (''name'', name), (''type'', type), (''full_name'', full_name), (''email'', email),
      (''three_lc'', three_lc), (''department'', department), (''description'', description)]"

definition member_keys :: "string list" where
  "member_keys = map fst optional_members"

definition member_values :: "User \<Rightarrow> string option list" where
  "member_values r = map (\<lambda>(k, sel). sel r) optional_members"

text \<open>The entry contains the key with a non-null value.\<close>

definition present_non_null :: "string \<Rightarrow> json \<Rightarrow> bool" where
  "present_non_null k e = (case obj_find k e of Some v \<Rightarrow> v \<noteq> JNull | None \<Rightarrow> False)"

text \<open>The guid is the entry's; an entry without one leaves the default, the empty string.\<close>

definition guid_copied :: "json \<Rightarrow> string \<Rightarrow> bool" where
  "guid_copied e g = (case obj_find ''guid'' e of Some v \<Rightarrow> v = JStr g | None \<Rightarrow> g = [])"

text \<open>An optional member is set if and only if the entry contains its key with a
  non-null value, and then it is that value.\<close>

definition optional_copied :: "string \<Rightarrow> json \<Rightarrow> string option \<Rightarrow> bool" where
  "optional_copied k e x =
     ((x \<noteq> None) = present_non_null k e
      \<and> (case x of Some s \<Rightarrow> obj_find k e = Some (JStr s) | None \<Rightarrow> True))"

text \<open>A boolean member is the entry's value, or the default when the key is absent.\<close>

definition bool_copied :: "string \<Rightarrow> bool \<Rightarrow> json \<Rightarrow> bool \<Rightarrow> bool" where
  "bool_copied k dflt e b = (case obj_find k e of Some v \<Rightarrow> v = JBool b | None \<Rightarrow> b = dflt)"

definition entry_maps_to :: "json \<Rightarrow> User \<Rightarrow> bool" where
  "entry_maps_to e r =
     (guid_copied e (guid r)
      \<and> list_all (\<lambda>(k, sel). optional_copied k e (sel r)) optional_members
      \<and> bool_copied ''is_active'' True e (is_active r)
      \<and> bool_copied ''is_reportable'' False e (is_reportable r))"

text \<open>The entries of the two accepted envelopes: a top-level array, or an object with
  a \<^verbatim>\<open>users\<close> array member. Any other value has none.\<close>

definition envelope_entries :: "json \<Rightarrow> json list option" where
  "envelope_entries j =
     (case j of
        JArr es \<Rightarrow> Some es
      | JObj kvs \<Rightarrow> (case map_of kvs ''users'' of Some (JArr es) \<Rightarrow> Some es | _ \<Rightarrow> None)
      | _ \<Rightarrow> None)"

subsection \<open>Sample inputs\<close>

text \<open>A transport that answers every request with the same response, and one that
  receives no response.\<close>

definition always :: "response \<Rightarrow> transport" where
  "always res req = Some res"

definition unreachable :: transport where
  "unreachable req = None"

text \<open>A parser restricted to a few body texts; every other text is taken as malformed.\<close>

definition sample_parse :: parser where
  \<open>sample_parse b =
     (if b = ''{"access_token":"abc"}'' then Inr (JObj [(''access_token'', JStr ''abc'')])
      else if b = ''[{"guid":"g1"}]'' then Inr (JArr [JObj [(''guid'', JStr ''g1'')]])
      else if b = ''{"users":[{"guid":"g2","email":"a@b.com","is_active":false}]}''
      then Inr (JObj [(''users'',
                       JArr [JObj [(''guid'', JStr ''g2''), (''email'', JStr ''a@b.com''),
                                   (''is_active'', JBool False)]])])
      else if b = ''[{}]'' then Inr (JArr [JObj []])
      else if b = ''{}'' then Inr (JObj [])
      else if b = ''[{"guid":"g1"},{"guid":5},{}]''
      then Inr (JArr [JObj [(''guid'', JStr ''g1'')], JObj [(''guid'', JNum 5)], JObj []])
      else if b = ''42'' then Inr (JNum 42)
      else Inl (parse_error ''syntax error''))\<close>

definition sample_keycloak :: KeycloakClient where
  "sample_keycloak = KeycloakClient_new ''kc.example'' 443 ''master'' ''admin-cli'' ''admin'' ''secret''"

definition sample_logipad :: LogipadClient where
  "sample_logipad = LogipadClient_new ''kc.example'' 443 ''Logipad'' ''lpclient'' ''sysadm'' ''secret''"

definition sample_authed :: LogipadClient where
  "sample_authed = sample_logipad\<lparr>lp_m_accessToken := ''abc''\<rparr>"

definition sample_user :: "string \<Rightarrow> string \<Rightarrow> UserInfo" where
  "sample_user uname pass =
     \<lparr>ui_username = uname, ui_email = ''testuser@test.com'', ui_firstName = ''Test'',
      ui_lastName = ''User'', ui_password = pass, ui_enabled = True, ui_emailVerified = True\<rparr>"

text \<open>An entry that has every optional key, each with its own name as value.\<close>

definition full_entry :: json where
  "full_entry = JObj ((''guid'', JStr ''g'') # map (\<lambda>(k, sel). (k, JStr k)) optional_members)"

section \<open>Auxiliary facts\<close>

lemma bind_exn_InrE:
  assumes "bind_exn m f = Inr y"
  obtains x where "m = Inr x" and "f x = Inr y"
  using assms by (cases m) auto

lemma get_string_Inr: "get_string v = Inr s \<longleftrightarrow> v = JStr s"
  by (cases v) auto

lemma get_bool_Inr: "get_bool v = Inr b \<longleftrightarrow> v = JBool b"
  by (cases v) auto

lemma is_null_iff: "is_null v \<longleftrightarrow> v = JNull"
  by (cases v) auto

lemma guid_member_Inr: "guid_member e = Inr g \<Longrightarrow> guid_copied e g"
  by (auto simp: guid_member_def guid_copied_def get_string_Inr split: option.splits)

lemma optional_member_Inr: "optional_member k e = Inr x \<Longrightarrow> optional_copied k e x"
  by (auto simp: optional_member_def optional_copied_def present_non_null_def get_string_Inr
      is_null_iff split: option.splits if_splits elim!: bind_exn_InrE)

lemma bool_member_Inr: "bool_member k d e = Inr b \<Longrightarrow> bool_copied k d e b"
  by (auto simp: bool_member_def bool_copied_def get_bool_Inr split: option.splits)

lemma parse_user_Inr:
  assumes "parse_user e = Inr r"
  shows "entry_maps_to e r"
  using assms unfolding parse_user_def
  apply (elim bind_exn_InrE)
  apply (drule guid_member_Inr)
  apply (drule optional_member_Inr bool_member_Inr)+
  apply (clarsimp simp: entry_maps_to_def optional_members_def)
  done

lemma parse_users_None:
  "parse_users es acc = (None, l) \<Longrightarrow> \<exists>rs. l = acc @ rs \<and> list_all2 entry_maps_to es rs"
proof (induction es arbitrary: acc)
  case Nil
  then show ?case by simp
next
  case (Cons e es)
  from Cons.prems obtain u where u: "parse_user e = Inr u"
    and rest: "parse_users es (acc @ [u]) = (None, l)"
    by (auto split: sum.splits)
  from Cons.IH[OF rest] obtain rs where "l = (acc @ [u]) @ rs" "list_all2 entry_maps_to es rs"
    by blast
  with parse_user_Inr[OF u] show ?case by auto
qed

lemma getAllUsers_try_None:
  assumes "getAllUsers_try parse b us = (None, us1)" and "parse b = Inr j"
  shows "case envelope_entries j of
           Some es \<Rightarrow> \<exists>rs. users us1 = users us @ rs \<and> list_all2 entry_maps_to es rs
         | None \<Rightarrow> us1 = us"
proof (cases j)
  case (JArr es)
  with assms show ?thesis
    by (auto simp: getAllUsers_try_def envelope_entries_def split: prod.splits dest: parse_users_None)
next
  case (JObj kvs)
  show ?thesis
  proof (cases "map_of kvs ''users''")
    case None
    with assms JObj show ?thesis
      by (simp add: getAllUsers_try_def envelope_entries_def)
  next
    case (Some a)
    with assms JObj show ?thesis
      by (cases a)
        (auto simp: getAllUsers_try_def envelope_entries_def split: prod.splits
          dest: parse_users_None)
  qed
qed (use assms in \<open>auto simp: getAllUsers_try_def envelope_entries_def\<close>)

lemma getAllUsers_TrueE:
  assumes "returned (getAllUsers parse net c us0 h p) = True"
  obtains res where "lp_m_accessToken c \<noteq> []" and "net (users_request c h p) = Some res"
    and "status res = 200"
    and "getAllUsers_try parse (body res) (us0\<lparr>users := []\<rparr>)
           = (None, state_after (getAllUsers parse net c us0 h p))"
    and "requests_sent (getAllUsers parse net c us0 h p) = [users_request c h p]"
  using assms
  by (auto simp: getAllUsers_def returned_def state_after_def requests_sent_def Let_def
      split: if_splits option.splits prod.splits)

lemma getAllUsers_entries:
  assumes "returned (getAllUsers parse net c us0 h p) = True"
    and "net (users_request c h p) = Some res"
    and "parse (body res) = Inr j"
    and "envelope_entries j = Some es"
  shows "list_all2 entry_maps_to es (users (state_after (getAllUsers parse net c us0 h p)))"
proof -
  from assms(1) obtain res' where "net (users_request c h p) = Some res'"
    and "getAllUsers_try parse (body res') (us0\<lparr>users := []\<rparr>)
           = (None, state_after (getAllUsers parse net c us0 h p))"
    by (rule getAllUsers_TrueE)
  with assms(2)
  have "getAllUsers_try parse (body res) (us0\<lparr>users := []\<rparr>)
          = (None, state_after (getAllUsers parse net c us0 h p))"
    by simp
  from getAllUsers_try_None[OF this assms(3)] assms(4) show ?thesis
    by auto
qed



subsection \<open>Facts about authentication and user creation\<close>

lemma KeycloakClient_authenticate_sent:
  "requests_sent (KeycloakClient_authenticate parse net k) =
     (if m_username k = [] \<or> m_password k = [] then []
      else [token_request (m_host k) (m_port k) (m_realm k) (m_clientId k)
              (m_username k) (m_password k)])"
  by (simp add: KeycloakClient_authenticate_def requests_sent_def Let_def
      split: option.splits sum.splits prod.splits)

lemma KeycloakClient_authenticate_token:
  "\<not> returned (KeycloakClient_authenticate parse net k)
   \<Longrightarrow> m_accessToken (state_after (KeycloakClient_authenticate parse net k)) = []"
  by (auto simp: KeycloakClient_authenticate_def authenticate_try_def returned_def state_after_def
      Let_def split: option.splits sum.splits prod.splits if_splits elim!: bind_exn_InrE)

lemma ensureAuthenticated_sent:
  "requests_sent (ensureAuthenticated parse net k) =
     (if m_accessToken k = [] \<and> m_username k \<noteq> [] \<and> m_password k \<noteq> []
      then [token_request (m_host k) (m_port k) (m_realm k) (m_clientId k)
              (m_username k) (m_password k)]
      else [])"
  using KeycloakClient_authenticate_sent[of parse net k]
  by (simp add: ensureAuthenticated_def requests_sent_def)

lemma createUser_cases:
  "(\<not> returned (createUser parse net k u realm)
      \<and> requests_sent (createUser parse net k u realm)
          = requests_sent (ensureAuthenticated parse net (k\<lparr>m_lastError := []\<rparr>)))
   \<or> (ui_username u \<noteq> [] \<and> ui_email u \<noteq> []
      \<and> requests_sent (createUser parse net k u realm)
          = requests_sent (ensureAuthenticated parse net (k\<lparr>m_lastError := []\<rparr>))
            @ [create_request (state_after (ensureAuthenticated parse net (k\<lparr>m_lastError := []\<rparr>)))
                 u realm])"
  by (cases "ensureAuthenticated parse net (k\<lparr>m_lastError := []\<rparr>)")
    (simp add: createUser_def returned_def requests_sent_def state_after_def Let_def
      split: option.splits)

lemma createUser_rejects:
  assumes "ui_username u = [] \<or> ui_email u = []"
  shows "\<not> returned (createUser parse net k u realm)"
    and "requests_sent (createUser parse net k u realm)
          = requests_sent (ensureAuthenticated parse net (k\<lparr>m_lastError := []\<rparr>))"
  using assms createUser_cases[of parse net k u realm] by auto


lemma token_path_not_admin:
  "req_path (token_request h p r c u pw) \<noteq> ''/admin/realms/'' @ realm @ ''/users''"
  by (simp add: token_request_def)

lemma toJson_credentials:
  "if ui_password u \<noteq> [] then password_credentials (toJson u)
   else obj_find ''credentials'' (toJson u) = None"
  by (simp add: toJson_def password_credentials_def)

lemma KeycloakClient_authenticate_cleared:
  "KeycloakClient_authenticate parse net (k\<lparr>m_accessToken := []\<rparr>)
     = KeycloakClient_authenticate parse net k"
  by (simp add: KeycloakClient_authenticate_def)

lemma LogipadClient_authenticate_cleared:
  "LogipadClient_authenticate parse net (l\<lparr>lp_m_accessToken := []\<rparr>)
     = LogipadClient_authenticate parse net l"
  by (simp add: LogipadClient_authenticate_def)

lemma LogipadClient_authenticate_token:
  "returned (LogipadClient_authenticate parse net l) \<noteq> Inr True
   \<Longrightarrow> lp_m_accessToken (state_after (LogipadClient_authenticate parse net l)) = []"
  by (auto simp: LogipadClient_authenticate_def returned_def state_after_def
      Let_def split: option.splits sum.splits if_splits)

lemma index_mut_string:
  assumes "index_mut key j = Inr v" and "get_string v = Inr s"
  shows "obj_find key j = Some (JStr s)"
  using assms by (cases j) (auto simp: get_string_Inr split: option.splits)

lemma token_agrees:
  assumes "bind_exn (parse b) (\<lambda>j. bind_exn (index_mut ''access_token'' j) get_string) = Inr tok"
  shows "authenticate_try parse c b = Inr (True, c\<lparr>m_accessToken := tok\<rparr>)"
proof -
  from assms obtain j v where "parse b = Inr j" and "index_mut ''access_token'' j = Inr v"
    and "get_string v = Inr tok"
    by (auto elim!: bind_exn_InrE)
  then show ?thesis
    using index_mut_string[of "''access_token''" j v tok]
    by (simp add: authenticate_try_def get_string_Inr)
qed

section \<open>Properties of the directory listing\<close>

text \<open>
  Claim C6. Whenever the held access token is empty, \<^verbatim>\<open>getAllUsers\<close> returns false, leaves
  the result collection empty and sends no request: neither the listing request nor a
  re-authentication (the function has no call of \<^verbatim>\<open>authenticate\<close>, and the client's state
  is not touched).
\<close>

theorem getAllUsers_empty_token:
  assumes "lp_m_accessToken c = []"
  shows "returned (getAllUsers parse net c prior apiHost apiPort) = False
         \<and> users (state_after (getAllUsers parse net c prior apiHost apiPort)) = []
         \<and> requests_sent (getAllUsers parse net c prior apiHost apiPort) = []"
  using assms by (simp add: getAllUsers_def returned_def state_after_def requests_sent_def)

theorem getAllUsers_empty_token_witness:
  "lp_m_accessToken sample_logipad = []
   \<and> returned (getAllUsers sample_parse (always \<lparr>status = 200, body = ''[{}]''\<rparr>)
        sample_logipad \<lparr>users = []\<rparr> ''identity.example'' 443) = False
   \<and> users (state_after (getAllUsers sample_parse (always \<lparr>status = 200, body = ''[{}]''\<rparr>)
        sample_logipad \<lparr>users = []\<rparr> ''identity.example'' 443)) = []
   \<and> requests_sent (getAllUsers sample_parse (always \<lparr>status = 200, body = ''[{}]''\<rparr>)
        sample_logipad \<lparr>users = []\<rparr> ''identity.example'' 443) = []"
proof -
  have h: "lp_m_accessToken sample_logipad = []"
    by (simp add: sample_logipad_def LogipadClient_new_def)
  from getAllUsers_empty_token[OF h, of sample_parse "always \<lparr>status = 200, body = ''[{}]''\<rparr>"
      "\<lparr>users = []\<rparr>" "''identity.example''" 443] h
  show ?thesis by blast
qed

text \<open>
  Claim C10. When \<^verbatim>\<open>getAllUsers\<close> holds a token and receives a 200 response whose body is
  valid JSON but neither an array nor an object with a \<^verbatim>\<open>users\<close> array, it returns true
  and leaves the collection empty.
\<close>

theorem getAllUsers_unrecognised_shape:
  assumes "lp_m_accessToken c \<noteq> []"
    and "net (users_request c apiHost apiPort) = Some res"
    and "status res = 200"
    and "parse (body res) = Inr j"
    and "envelope_entries j = None"
  shows "getAllUsers parse net c prior apiHost apiPort
           = (True, prior\<lparr>users := []\<rparr>, [users_request c apiHost apiPort])"
proof -
  have "getAllUsers_try parse (body res) (prior\<lparr>users := []\<rparr>) = (None, prior\<lparr>users := []\<rparr>)"
  proof (cases j)
    case (JObj kvs)
    with assms(4,5) show ?thesis
      by (auto simp: getAllUsers_try_def envelope_entries_def split: option.splits json.splits)
  qed (use assms(4,5) in \<open>auto simp: getAllUsers_try_def envelope_entries_def\<close>)
  with assms(1-3) show ?thesis
    by (simp add: getAllUsers_def Let_def)
qed

theorem getAllUsers_unrecognised_shape_witness:
  "lp_m_accessToken (sample_logipad\<lparr>lp_m_accessToken := ''abc''\<rparr>) \<noteq> []
   \<and> always \<lparr>status = 200, body = ''42''\<rparr>
        (users_request (sample_logipad\<lparr>lp_m_accessToken := ''abc''\<rparr>) ''identity.example'' 443)
      = Some \<lparr>status = 200, body = ''42''\<rparr>
   \<and> sample_parse ''42'' = Inr (JNum 42)
   \<and> envelope_entries (JNum 42) = None
   \<and> getAllUsers sample_parse (always \<lparr>status = 200, body = ''42''\<rparr>)
        (sample_logipad\<lparr>lp_m_accessToken := ''abc''\<rparr>) \<lparr>users = []\<rparr> ''identity.example'' 443
      = (True, \<lparr>users = []\<rparr>,
         [users_request (sample_logipad\<lparr>lp_m_accessToken := ''abc''\<rparr>) ''identity.example'' 443])"
proof -
  let ?c = "sample_logipad\<lparr>lp_m_accessToken := ''abc''\<rparr>"
  let ?res = "\<lparr>status = 200, body = ''42''\<rparr>"
  have h1: "lp_m_accessToken ?c \<noteq> []" by simp
  have h2: "always ?res (users_request ?c ''identity.example'' 443) = Some ?res"
    by (simp add: always_def)
  have h3: "status ?res = 200" by simp
  have h4: "sample_parse (body ?res) = Inr (JNum 42)"
    by (simp add: sample_parse_def)
  have h5: "envelope_entries (JNum 42) = None" by (simp add: envelope_entries_def)
  have h4': "sample_parse ''42'' = Inr (JNum 42)"
    by (simp add: sample_parse_def)
  have u: "\<lparr>users = []\<rparr>\<lparr>users := []\<rparr> = \<lparr>users = []\<rparr>" by simp
  from getAllUsers_unrecognised_shape[where parse = sample_parse and net = "always ?res"
      and prior = "\<lparr>users = []\<rparr>", OF h1 h2 h3 h4 h5] h1 h2 h4' h5
  show ?thesis unfolding u by blast
qed

text \<open>
  Claim C4, as amended. For every \<^verbatim>\<open>getAllUsers\<close> call that returns true on a body that is
  a top-level array or an object with a \<^verbatim>\<open>users\<close> array, the collection is replaced by
  exactly one record per entry, in input order, where: the guid is copied from the
  entry; each of the 16 optional string members is set if and only if the entry contains
  that key with a non-null value, and then holds that value; \<^verbatim>\<open>is_active\<close> is the
  entry's value, or true when absent; \<^verbatim>\<open>is_reportable\<close> is the entry's value, or false
  when absent.
\<close>

theorem getAllUsers_maps_entries:
  assumes "returned (getAllUsers parse net c prior apiHost apiPort) = True"
    and "net (users_request c apiHost apiPort) = Some res"
    and "parse (body res) = Inr j"
    and "envelope_entries j = Some es"
  shows "length (users (state_after (getAllUsers parse net c prior apiHost apiPort))) = length es
         \<and> list_all2 entry_maps_to es
              (users (state_after (getAllUsers parse net c prior apiHost apiPort)))"
  using getAllUsers_entries[OF assms] by (simp add: list_all2_lengthD)

text \<open>
  The theorem at a concrete input.
\<close>

theorem getAllUsers_maps_entries_witness:
  \<open>returned (getAllUsers sample_parse
       (always \<lparr>status = 200,
                 body = ''{"users":[{"guid":"g2","email":"a@b.com","is_active":false}]}''\<rparr>)
       sample_authed \<lparr>users = []\<rparr> ''identity.example'' 443) = True
   \<and> envelope_entries (JObj [(''users'',
         JArr [JObj [(''guid'', JStr ''g2''), (''email'', JStr ''a@b.com''),
                     (''is_active'', JBool False)]])])
      = Some [JObj [(''guid'', JStr ''g2''), (''email'', JStr ''a@b.com''),
                    (''is_active'', JBool False)]]
   \<and> list_all2 entry_maps_to
        [JObj [(''guid'', JStr ''g2''), (''email'', JStr ''a@b.com''), (''is_active'', JBool False)]]
        (users (state_after (getAllUsers sample_parse
           (always \<lparr>status = 200,
                     body = ''{"users":[{"guid":"g2","email":"a@b.com","is_active":false}]}''\<rparr>)
           sample_authed \<lparr>users = []\<rparr> ''identity.example'' 443)))\<close>
proof -
  let ?b = \<open>''{"users":[{"guid":"g2","email":"a@b.com","is_active":false}]}''\<close>
  let ?res = "\<lparr>status = 200, body = ?b\<rparr>"
  let ?e = "JObj [(''guid'', JStr ''g2''), (''email'', JStr ''a@b.com''), (''is_active'', JBool False)]"
  let ?j = "JObj [(''users'', JArr [?e])]"
  have p: "sample_parse ?b = Inr ?j"
    by (simp add: sample_parse_def)
  have u: "parse_user ?e = Inr \<lparr>guid = ''g2'', created_at = None, created_by = None,
         modified_at = None, modified_by = None, last_login_at = None,
         last_activity_at = None, last_document_service_activity = None,
         last_eform_service_activity = None,
         last_briefing_service_activity = None, name = None, type = None,
         full_name = None, email = Some ''a@b.com'', three_lc = None,
         department = None, description = None, is_active = False,
         is_reportable = False\<rparr>"
    by (simp add: parse_user_def guid_member_def optional_member_def bool_member_def)
  have h1: "returned (getAllUsers sample_parse (always ?res) sample_authed \<lparr>users = []\<rparr>
              ''identity.example'' 443) = True"
    by (simp add: getAllUsers_def getAllUsers_try_def returned_def always_def p u
        sample_authed_def Let_def)
  have h2: "always ?res (users_request sample_authed ''identity.example'' 443) = Some ?res"
    by (simp add: always_def)
  have h3: "sample_parse (body ?res) = Inr ?j"
    using p by simp
  have h4: "envelope_entries ?j = Some [?e]"
    by (simp add: envelope_entries_def)
  from getAllUsers_maps_entries[where parse = sample_parse and net = "always ?res", OF h1 h2 h3 h4]
    h1 h4
  show ?thesis by blast
qed

text \<open>
  The claim as stated counts 14 optional string members. The record has 16: the entry
  that carries all sixteen keys sets sixteen different members.
\<close>

theorem optional_members_count_counterexample:
  "length member_keys = 16
   \<and> distinct member_keys
   \<and> map_sum id member_values (parse_user full_entry) = Inr (map Some member_keys)"
  by (simp add: member_keys_def member_values_def optional_members_def full_entry_def
      parse_user_def guid_member_def optional_member_def bool_member_def)




section \<open>Properties of authentication\<close>

text \<open>
  Claim C7. With an empty username or an empty password, \<^verbatim>\<open>authenticate\<close> returns false,
  sends no request and leaves the token empty, in \<^verbatim>\<open>KeycloakClient\<close> and in
  \<^verbatim>\<open>LogipadClient\<close>. Every attempt starts by clearing the stored token: whatever the
  credentials, the attempt runs exactly as it runs from the state with the token already
  cleared, and unless it returns true the token is empty when it ends.
\<close>

theorem authenticate_empty_credentials:
  "(m_username k = [] \<or> m_password k = [] \<longrightarrow>
      returned (KeycloakClient_authenticate parse net k) = False
      \<and> requests_sent (KeycloakClient_authenticate parse net k) = []
      \<and> m_accessToken (state_after (KeycloakClient_authenticate parse net k)) = [])
   \<and> (lp_m_username l = [] \<or> lp_m_password l = [] \<longrightarrow>
      returned (LogipadClient_authenticate parse net l) = Inr False
      \<and> requests_sent (LogipadClient_authenticate parse net l) = []
      \<and> lp_m_accessToken (state_after (LogipadClient_authenticate parse net l)) = [])
   \<and> KeycloakClient_authenticate parse net k
       = KeycloakClient_authenticate parse net (k\<lparr>m_accessToken := []\<rparr>)
   \<and> LogipadClient_authenticate parse net l
       = LogipadClient_authenticate parse net (l\<lparr>lp_m_accessToken := []\<rparr>)
   \<and> (returned (KeycloakClient_authenticate parse net k) \<noteq> True \<longrightarrow>
        m_accessToken (state_after (KeycloakClient_authenticate parse net k)) = [])
   \<and> (returned (LogipadClient_authenticate parse net l) \<noteq> Inr True \<longrightarrow>
        lp_m_accessToken (state_after (LogipadClient_authenticate parse net l)) = [])"
proof -
  have k_ret: "returned (KeycloakClient_authenticate parse net k) = False"
    if "m_username k = [] \<or> m_password k = []"
    using that by (auto simp: KeycloakClient_authenticate_def returned_def)
  have k_sent: "requests_sent (KeycloakClient_authenticate parse net k) = []"
    if "m_username k = [] \<or> m_password k = []"
    using that by (simp add: KeycloakClient_authenticate_sent)
  have k_tok: "m_accessToken (state_after (KeycloakClient_authenticate parse net k)) = []"
    if "returned (KeycloakClient_authenticate parse net k) \<noteq> True"
    using that KeycloakClient_authenticate_token[of parse net k] by simp
  have l_ret: "returned (LogipadClient_authenticate parse net l) = Inr False"
    if "lp_m_username l = [] \<or> lp_m_password l = []"
    using that by (auto simp: LogipadClient_authenticate_def returned_def)
  have l_sent: "requests_sent (LogipadClient_authenticate parse net l) = []"
    if "lp_m_username l = [] \<or> lp_m_password l = []"
    using that by (auto simp: LogipadClient_authenticate_def requests_sent_def)
  have l_tok: "lp_m_accessToken (state_after (LogipadClient_authenticate parse net l)) = []"
    if "returned (LogipadClient_authenticate parse net l) \<noteq> Inr True"
    using that by (rule LogipadClient_authenticate_token)
  have k_clr: "KeycloakClient_authenticate parse net k
                 = KeycloakClient_authenticate parse net (k\<lparr>m_accessToken := []\<rparr>)"
    by (simp add: KeycloakClient_authenticate_cleared)
  have l_clr: "LogipadClient_authenticate parse net l
                 = LogipadClient_authenticate parse net (l\<lparr>lp_m_accessToken := []\<rparr>)"
    by (simp add: LogipadClient_authenticate_cleared)
  have k_tok': "m_accessToken (state_after (KeycloakClient_authenticate parse net k)) = []"
    if "m_username k = [] \<or> m_password k = []"
    using k_ret[OF that] k_tok by simp
  have l_tok': "lp_m_accessToken (state_after (LogipadClient_authenticate parse net l)) = []"
    if "lp_m_username l = [] \<or> lp_m_password l = []"
    using l_ret[OF that] l_tok by simp
  from k_ret k_sent k_tok k_tok' l_ret l_sent l_tok l_tok' k_clr l_clr show ?thesis
    by blast
qed

text \<open>
  The theorem at a concrete input.
\<close>

theorem authenticate_empty_credentials_witness:
  \<open>(m_username (sample_keycloak\<lparr>m_password := [], m_accessToken := ''old''\<rparr>) = []
      \<or> m_password (sample_keycloak\<lparr>m_password := [], m_accessToken := ''old''\<rparr>) = [])
   \<and> m_accessToken (sample_keycloak\<lparr>m_password := [], m_accessToken := ''old''\<rparr>) = ''old''
   \<and> returned (KeycloakClient_authenticate sample_parse
         (always \<lparr>status = 200, body = ''{"access_token":"abc"}''\<rparr>)
         (sample_keycloak\<lparr>m_password := [], m_accessToken := ''old''\<rparr>)) = False
   \<and> requests_sent (KeycloakClient_authenticate sample_parse
         (always \<lparr>status = 200, body = ''{"access_token":"abc"}''\<rparr>)
         (sample_keycloak\<lparr>m_password := [], m_accessToken := ''old''\<rparr>)) = []
   \<and> m_accessToken (state_after (KeycloakClient_authenticate sample_parse
         (always \<lparr>status = 200, body = ''{"access_token":"abc"}''\<rparr>)
         (sample_keycloak\<lparr>m_password := [], m_accessToken := ''old''\<rparr>))) = []
   \<and> (lp_m_username (sample_authed\<lparr>lp_m_username := []\<rparr>) = []
      \<or> lp_m_password (sample_authed\<lparr>lp_m_username := []\<rparr>) = [])
   \<and> lp_m_accessToken (sample_authed\<lparr>lp_m_username := []\<rparr>) = ''abc''
   \<and> returned (LogipadClient_authenticate sample_parse
         (always \<lparr>status = 200, body = ''{"access_token":"abc"}''\<rparr>)
         (sample_authed\<lparr>lp_m_username := []\<rparr>)) = Inr False
   \<and> requests_sent (LogipadClient_authenticate sample_parse
         (always \<lparr>status = 200, body = ''{"access_token":"abc"}''\<rparr>)
         (sample_authed\<lparr>lp_m_username := []\<rparr>)) = []
   \<and> lp_m_accessToken (state_after (LogipadClient_authenticate sample_parse
         (always \<lparr>status = 200, body = ''{"access_token":"abc"}''\<rparr>)
         (sample_authed\<lparr>lp_m_username := []\<rparr>))) = []\<close>
proof -
  let ?k = "sample_keycloak\<lparr>m_password := [], m_accessToken := ''old''\<rparr>"
  let ?l = "sample_authed\<lparr>lp_m_username := []\<rparr>"
  have h1: "m_username ?k = [] \<or> m_password ?k = []"
    by simp
  have h2: "lp_m_username ?l = [] \<or> lp_m_password ?l = []"
    by simp
  have t1: "m_accessToken ?k = ''old''" by simp
  have t2: "lp_m_accessToken ?l = ''abc''" by (simp add: sample_authed_def)
  from authenticate_empty_credentials[where k = ?k and l = ?l and parse = sample_parse
      and net = \<open>always \<lparr>status = 200, body = ''{"access_token":"abc"}''\<rparr>\<close>] h1 h2 t1 t2
  show ?thesis by blast
qed

text \<open>
  Claim C8. In every state of either client \<^verbatim>\<open>isAuthenticated\<close> is true if and only if
  the stored token is non-empty, so every operation preserves this. After
  \<^verbatim>\<open>setCredentials\<close> the token is empty and the client reports unauthenticated, and after
  an \<^verbatim>\<open>authenticate\<close> that did not succeed the token is empty.
\<close>

theorem authenticated_iff_token:
  "(isAuthenticated k \<longleftrightarrow> m_accessToken k \<noteq> [])
   \<and> (LogipadClient_isAuthenticated l \<longleftrightarrow> lp_m_accessToken l \<noteq> [])
   \<and> m_accessToken (setCredentials user pass k) = []
   \<and> \<not> isAuthenticated (setCredentials user pass k)
   \<and> (returned (KeycloakClient_authenticate parse net k) = False \<longrightarrow>
        m_accessToken (state_after (KeycloakClient_authenticate parse net k)) = []
        \<and> \<not> isAuthenticated (state_after (KeycloakClient_authenticate parse net k)))
   \<and> (returned (LogipadClient_authenticate parse net l) \<noteq> Inr True \<longrightarrow>
        lp_m_accessToken (state_after (LogipadClient_authenticate parse net l)) = []
        \<and> \<not> LogipadClient_isAuthenticated (state_after (LogipadClient_authenticate parse net l)))"
  using KeycloakClient_authenticate_token[of parse net k]
    LogipadClient_authenticate_token[of parse net l]
  by (simp add: isAuthenticated_def LogipadClient_isAuthenticated_def setCredentials_def)

text \<open>
  The theorem at a concrete input.
\<close>

theorem authenticated_iff_token_witness:
  "returned (KeycloakClient_authenticate sample_parse (always \<lparr>status = 401, body = []\<rparr>)
      (sample_keycloak\<lparr>m_accessToken := ''old''\<rparr>)) = False
   \<and> m_accessToken (state_after (KeycloakClient_authenticate sample_parse
        (always \<lparr>status = 401, body = []\<rparr>) (sample_keycloak\<lparr>m_accessToken := ''old''\<rparr>))) = []
   \<and> returned (LogipadClient_authenticate sample_parse unreachable
        (sample_logipad\<lparr>lp_m_accessToken := ''old''\<rparr>)) = Inr False
   \<and> lp_m_accessToken (state_after (LogipadClient_authenticate sample_parse unreachable
        (sample_logipad\<lparr>lp_m_accessToken := ''old''\<rparr>))) = []
   \<and> isAuthenticated (sample_keycloak\<lparr>m_accessToken := ''old''\<rparr>)
   \<and> \<not> isAuthenticated (setCredentials ''admin'' ''new'' (sample_keycloak\<lparr>m_accessToken := ''old''\<rparr>))"
proof -
  let ?k = "sample_keycloak\<lparr>m_accessToken := ''old''\<rparr>"
  let ?l = "sample_logipad\<lparr>lp_m_accessToken := ''old''\<rparr>"
  have h1: "returned (KeycloakClient_authenticate sample_parse (always \<lparr>status = 401, body = []\<rparr>) ?k)
            = False"
    by (simp add: KeycloakClient_authenticate_def returned_def always_def sample_keycloak_def
        KeycloakClient_new_def Let_def)
  have h2: "returned (LogipadClient_authenticate sample_parse unreachable ?l) = Inr False"
    by (simp add: LogipadClient_authenticate_def returned_def unreachable_def sample_logipad_def
        LogipadClient_new_def Let_def)
  have h2': "returned (LogipadClient_authenticate sample_parse unreachable ?l) \<noteq> Inr True"
    using h2 by simp
  have h3: "m_accessToken ?k \<noteq> []" by simp
  from authenticated_iff_token[where k = ?k and l = ?l and parse = sample_parse
      and net = "always \<lparr>status = 401, body = []\<rparr>" and user = "''admin''" and pass = "''new''"]
    authenticated_iff_token[where k = ?k and l = ?l and parse = sample_parse
      and net = unreachable and user = "''admin''" and pass = "''new''"]
    h1 h2 h2' h3
  show ?thesis by blast
qed

text \<open>
  Claim C3, evaluated where the code departs from it. On a 200 response whose body is
  not valid JSON, or is JSON without an \<^verbatim>\<open>access_token\<close> member,
  \<^verbatim>\<open>LogipadClient::authenticate\<close> lets the JSON exception escape, where
  \<^verbatim>\<open>KeycloakClient::authenticate\<close> catches it and returns false.
\<close>

theorem LogipadClient_authenticate_raises:
  \<open>returned (LogipadClient_authenticate sample_parse
       (always \<lparr>status = 200, body = ''<html>''\<rparr>) sample_logipad)
     = Inl (parse_error ''syntax error'')
   \<and> returned (LogipadClient_authenticate sample_parse
       (always \<lparr>status = 200, body = ''{}''\<rparr>) sample_logipad)
     = Inl (type_error 302 ''type must be string, but is null'')
   \<and> returned (KeycloakClient_authenticate sample_parse
       (always \<lparr>status = 200, body = ''<html>''\<rparr>) sample_keycloak) = False
   \<and> returned (KeycloakClient_authenticate sample_parse
       (always \<lparr>status = 200, body = ''{}''\<rparr>) sample_keycloak) = False\<close>
  by (simp add: LogipadClient_authenticate_def KeycloakClient_authenticate_def
      authenticate_try_def returned_def always_def sample_parse_def sample_logipad_def
      sample_keycloak_def LogipadClient_new_def KeycloakClient_new_def Let_def)

text \<open>
  Claim C2, as amended. \<^verbatim>\<open>LogipadClient::authenticate\<close> does not touch the embedded
  \<^verbatim>\<open>KeycloakClient\<close>; it performs the password grant itself. Whenever it returns a
  boolean, a \<^verbatim>\<open>KeycloakClient\<close> with the same configuration, given the same responses,
  returns the same boolean, ends with the same token and has sent the same requests.
\<close>

theorem LogipadClient_authenticate_agrees:
  assumes "same_configuration l k"
    and "returned (LogipadClient_authenticate parse net l) = Inr b"
  shows "returned (KeycloakClient_authenticate parse net k) = b
         \<and> m_accessToken (state_after (KeycloakClient_authenticate parse net k))
            = lp_m_accessToken (state_after (LogipadClient_authenticate parse net l))
         \<and> requests_sent (KeycloakClient_authenticate parse net k)
            = requests_sent (LogipadClient_authenticate parse net l)
         \<and> m_keycloakClient (state_after (LogipadClient_authenticate parse net l))
            = m_keycloakClient l"
proof (cases "lp_m_username l = [] \<or> lp_m_password l = []")
  case True
  with assms show ?thesis
    by (auto simp: same_configuration_def LogipadClient_authenticate_def
        KeycloakClient_authenticate_def returned_def state_after_def requests_sent_def)
next
  case False
  let ?req = "token_request (m_host k) (m_port k) (m_realm k) (m_clientId k)
                (m_username k) (m_password k)"
  show ?thesis
  proof (cases "net ?req")
    case None
    with False assms show ?thesis
      by (auto simp: same_configuration_def LogipadClient_authenticate_def
          KeycloakClient_authenticate_def returned_def state_after_def requests_sent_def)
  next
    case (Some res)
    show ?thesis
    proof (cases "status res = 200")
      case no: False
      with False Some assms show ?thesis
        by (auto simp: same_configuration_def LogipadClient_authenticate_def
            KeycloakClient_authenticate_def returned_def state_after_def requests_sent_def)
    next
      case ok: True
      from False Some ok assms obtain tok
        where tok: "bind_exn (parse (body res))
                      (\<lambda>j. bind_exn (index_mut ''access_token'' j) get_string) = Inr tok"
        by (auto simp: same_configuration_def LogipadClient_authenticate_def returned_def
            Let_def split: sum.splits)
      from False Some ok assms tok
        token_agrees[where parse = parse and b = "body res"
          and c = "k\<lparr>m_lastError := [], m_accessToken := []\<rparr>", OF tok]
      show ?thesis
        by (auto simp: same_configuration_def LogipadClient_authenticate_def
            KeycloakClient_authenticate_def returned_def state_after_def requests_sent_def
            Let_def)
    qed
  qed
qed

text \<open>
  The theorem at a concrete input.
\<close>

theorem LogipadClient_authenticate_agrees_witness:
  \<open>same_configuration sample_logipad
      (KeycloakClient_new ''kc.example'' 443 ''Logipad'' ''lpclient'' ''sysadm'' ''secret'')
   \<and> returned (LogipadClient_authenticate sample_parse
         (always \<lparr>status = 200, body = ''{"access_token":"abc"}''\<rparr>) sample_logipad) = Inr True
   \<and> returned (KeycloakClient_authenticate sample_parse
         (always \<lparr>status = 200, body = ''{"access_token":"abc"}''\<rparr>)
         (KeycloakClient_new ''kc.example'' 443 ''Logipad'' ''lpclient'' ''sysadm'' ''secret'')) = True
   \<and> m_accessToken (state_after (KeycloakClient_authenticate sample_parse
         (always \<lparr>status = 200, body = ''{"access_token":"abc"}''\<rparr>)
         (KeycloakClient_new ''kc.example'' 443 ''Logipad'' ''lpclient'' ''sysadm'' ''secret'')))
      = lp_m_accessToken (state_after (LogipadClient_authenticate sample_parse
         (always \<lparr>status = 200, body = ''{"access_token":"abc"}''\<rparr>) sample_logipad))\<close>
proof -
  let ?k = "KeycloakClient_new ''kc.example'' 443 ''Logipad'' ''lpclient'' ''sysadm'' ''secret''"
  let ?net = \<open>always \<lparr>status = 200, body = ''{"access_token":"abc"}''\<rparr>\<close>
  have h1: "same_configuration sample_logipad ?k"
    by (simp add: same_configuration_def sample_logipad_def LogipadClient_new_def
        KeycloakClient_new_def)
  have h2: "returned (LogipadClient_authenticate sample_parse ?net sample_logipad) = Inr True"
    by (simp add: LogipadClient_authenticate_def returned_def always_def sample_parse_def
        sample_logipad_def LogipadClient_new_def Let_def)
  from LogipadClient_authenticate_agrees[OF h1 h2] h1 h2 show ?thesis by blast
qed

text \<open>
  The claim as stated fails: after a successful \<^verbatim>\<open>authenticate\<close> the client holds the
  token while there is still no embedded \<^verbatim>\<open>KeycloakClient\<close> whose state it could mirror.
\<close>

theorem LogipadClient_authenticate_no_delegate_counterexample:
  \<open>m_keycloakClient (state_after (LogipadClient_authenticate sample_parse
       (always \<lparr>status = 200, body = ''{"access_token":"abc"}''\<rparr>) sample_logipad)) = None
   \<and> lp_m_accessToken (state_after (LogipadClient_authenticate sample_parse
       (always \<lparr>status = 200, body = ''{"access_token":"abc"}''\<rparr>) sample_logipad)) = ''abc''\<close>
  by (simp add: LogipadClient_authenticate_def state_after_def always_def sample_parse_def
      sample_logipad_def LogipadClient_new_def Let_def)

section \<open>Properties of user creation\<close>

text \<open>
  Claim C1, as amended. Whenever \<^verbatim>\<open>createUser\<close> sends the user-creation request, its body
  is the JSON of the record. For a record with a non-empty password that JSON delivers the
  password inside a one-element \<^verbatim>\<open>credentials\<close> array of type \<^verbatim>\<open>"password"\<close>, marked
  temporary, whose value is the literal \<^verbatim>\<open>"logipad"\<close> and not the record's password. For a
  record with an empty password the JSON has no \<^verbatim>\<open>credentials\<close> member at all.
\<close>

theorem createUser_credentials:
  assumes "req \<in> set (requests_sent (createUser parse net k u realm))"
    and "req_path req = ''/admin/realms/'' @ realm @ ''/users''"
  shows "req_payload req = Body (toJson u) ''application/json''
         \<and> (if ui_password u \<noteq> [] then password_credentials (toJson u)
            else obj_find ''credentials'' (toJson u) = None)
         \<and> (ui_password u \<noteq> [] \<and> other \<noteq> [] \<longrightarrow>
              toJson (u\<lparr>ui_password := other\<rparr>) = toJson u)"
proof -
  let ?k = "k\<lparr>m_lastError := []\<rparr>"
  have "req \<notin> set (requests_sent (ensureAuthenticated parse net ?k))"
    using assms(2) token_path_not_admin by (auto simp: ensureAuthenticated_sent)
  with assms(1) createUser_cases[of parse net k u realm]
  have "req = create_request (state_after (ensureAuthenticated parse net ?k)) u realm"
    by auto
  then have "req_payload req = Body (toJson u) ''application/json''"
    by (simp add: create_request_def)
  with toJson_credentials[of u] show ?thesis by (simp add: toJson_def)
qed

text \<open>
  The theorem at a concrete input.
\<close>

theorem createUser_credentials_witness:
  "create_request (sample_keycloak\<lparr>m_accessToken := ''abc''\<rparr>) (sample_user ''aaaaa'' ''testpassword'') ''Logipad''
     \<in> set (requests_sent (createUser sample_parse (always \<lparr>status = 201, body = []\<rparr>)
               (sample_keycloak\<lparr>m_accessToken := ''abc''\<rparr>)
               (sample_user ''aaaaa'' ''testpassword'') ''Logipad''))
   \<and> req_path (create_request (sample_keycloak\<lparr>m_accessToken := ''abc''\<rparr>)
                 (sample_user ''aaaaa'' ''testpassword'') ''Logipad'')
      = ''/admin/realms/'' @ ''Logipad'' @ ''/users''
   \<and> req_payload (create_request (sample_keycloak\<lparr>m_accessToken := ''abc''\<rparr>)
                    (sample_user ''aaaaa'' ''testpassword'') ''Logipad'')
      = Body (toJson (sample_user ''aaaaa'' ''testpassword'')) ''application/json''
   \<and> password_credentials (toJson (sample_user ''aaaaa'' ''testpassword''))
   \<and> toJson ((sample_user ''aaaaa'' ''testpassword'')\<lparr>ui_password := ''another''\<rparr>)
      = toJson (sample_user ''aaaaa'' ''testpassword'')"
proof -
  let ?k = "sample_keycloak\<lparr>m_accessToken := ''abc''\<rparr>"
  let ?u = "sample_user ''aaaaa'' ''testpassword''"
  let ?req = "create_request ?k ?u ''Logipad''"
  have h1: "?req \<in> set (requests_sent (createUser sample_parse (always \<lparr>status = 201, body = []\<rparr>)
                            ?k ?u ''Logipad''))"
    by (simp add: createUser_def ensureAuthenticated_def requests_sent_def always_def
        sample_keycloak_def KeycloakClient_new_def sample_user_def create_request_def
        getAuthHeaders_def)
  have h2: "req_path ?req = ''/admin/realms/'' @ ''Logipad'' @ ''/users''"
    by (simp add: create_request_def)
  have p: "ui_password ?u \<noteq> []" by (simp add: sample_user_def)
  have q: "''another'' \<noteq> []" by simp
  from createUser_credentials[OF h1 h2, of "''another''"] p q h1 h2 show ?thesis by simp
qed

text \<open>
  The claim as stated fails for a record with an empty password: the body sent has no
  credentials array.
\<close>

theorem createUser_empty_password_counterexample:
  "map password_credentials
     (sent_bodies (requests_sent (createUser sample_parse (always \<lparr>status = 201, body = []\<rparr>)
        (sample_keycloak\<lparr>m_accessToken := ''abc''\<rparr>) (sample_user ''aaaaa'' []) ''Logipad'')))
   = [False]"
  by (simp add: createUser_def ensureAuthenticated_def requests_sent_def always_def
      sample_keycloak_def KeycloakClient_new_def sample_user_def create_request_def
      getAuthHeaders_def toJson_def password_credentials_def)

text \<open>
  Claim C5, as amended. For a record whose username or email is empty, \<^verbatim>\<open>createUser\<close>
  returns false and never sends the user-creation request. The record is validated after
  the lazy re-authentication, so exactly when no token is held and both credentials are
  set, the token request is sent; otherwise nothing is sent.
\<close>

theorem createUser_invalid_record:
  assumes "ui_username u = [] \<or> ui_email u = []"
  shows "returned (createUser parse net k u realm) = False
         \<and> requests_sent (createUser parse net k u realm)
            = (if m_accessToken k = [] \<and> m_username k \<noteq> [] \<and> m_password k \<noteq> []
               then [token_request (m_host k) (m_port k) (m_realm k) (m_clientId k)
                       (m_username k) (m_password k)]
               else [])"
  using createUser_rejects[OF assms, of parse net k realm]
  by (simp add: ensureAuthenticated_sent)

text \<open>
  The theorem at a concrete input.
\<close>

theorem createUser_invalid_record_witness:
  "(ui_username (sample_user [] ''testpassword'') = []
      \<or> ui_email (sample_user [] ''testpassword'') = [])
   \<and> returned (createUser sample_parse (always \<lparr>status = 201, body = []\<rparr>)
        (sample_keycloak\<lparr>m_accessToken := ''abc''\<rparr>) (sample_user [] ''testpassword'') ''Logipad'')
      = False
   \<and> requests_sent (createUser sample_parse (always \<lparr>status = 201, body = []\<rparr>)
        (sample_keycloak\<lparr>m_accessToken := ''abc''\<rparr>) (sample_user [] ''testpassword'') ''Logipad'')
      = []"
proof -
  have h: "ui_username (sample_user [] ''testpassword'') = []
           \<or> ui_email (sample_user [] ''testpassword'') = []"
    by (simp add: sample_user_def)
  from createUser_invalid_record[OF h, of sample_parse "always \<lparr>status = 201, body = []\<rparr>"
      "sample_keycloak\<lparr>m_accessToken := ''abc''\<rparr>" "''Logipad''"] h
  show ?thesis by simp
qed

text \<open>
  The claim as stated fails when no token is held: the record with an empty username
  is rejected only after the token request has been sent.
\<close>

theorem createUser_invalid_record_counterexample:
  \<open>ui_username (sample_user [] ''testpassword'') = []
   \<and> requests_sent (createUser sample_parse
         (always \<lparr>status = 200, body = ''{"access_token":"abc"}''\<rparr>)
         sample_keycloak (sample_user [] ''testpassword'') ''Logipad'')
      = [token_request ''kc.example'' 443 ''master'' ''admin-cli'' ''admin'' ''secret'']\<close>
  by (simp add: createUser_def ensureAuthenticated_def KeycloakClient_authenticate_def
      authenticate_try_def requests_sent_def always_def sample_parse_def
      sample_keycloak_def KeycloakClient_new_def sample_user_def Let_def)

end
